theory Spec2Isabelle
  imports Main "HOL-Library.Sublist"
begin

section \<open>Object storage as the backup scripts use it\<close>

text \<open>
  The scripts talk to S3 through \<^verbatim>\<open>s3Client.send\<close>. The client is outside the
  repository, so it is a parameter: each command takes the state of the store and returns its
  reply with the new state. A reply \<open>Inl msg\<close> (or \<open>Some msg\<close> for a command with no
  payload) is a rejected promise.
\<close>

record s3_object =
  Key :: "string option"
  LastModified :: "int option"

record 't s3_client =
  listObjects :: "string \<Rightarrow> 't \<Rightarrow> (string + s3_object list option) \<times> 't"
  deleteObject :: "string \<Rightarrow> 't \<Rightarrow> string option \<times> 't"
  putObject :: "string \<Rightarrow> 't \<Rightarrow> string option \<times> 't"

text \<open>What a run does that can be observed: the commands it sends and the lines it prints.\<close>

datatype s3_command = ListObjectsV2 string | DeleteObject string | PutObject string

datatype console =
    NoRetentionPeriod
  | InvalidRetentionPeriod
  | CleaningUp int int
  | NoBackupsFoundLine
  | NoOldBackups
  | FoundOld nat
  | DeletedOldBackup string
  | CleanupCompleted nat
  | FailedToCleanup string
  | StartingBackup
  | DumpCompleted
  | UploadedTo string
  | TempFileCleaned
  | BackupFailed

datatype event = Sent s3_command | Printed console

datatype failure = RangeError | DumpFailed string | S3Failed string

section \<open>Retention cleanup: \<^verbatim>\<open>deleteOldBackups\<close> of index.ts\<close>

subsection \<open>\<^verbatim>\<open>parseInt(RETENTION_DAYS, 10)\<close>\<close>

text \<open>
  \<^verbatim>\<open>parseInt\<close> with radix 10 skips leading white space, reads an optional sign and the
  longest run of decimal digits, and ignores what follows; with no digit it is \<^verbatim>\<open>NaN\<close>,
  here \<open>None\<close>. Strings are ASCII here. The JavaScript result is a double; the model keeps
  the exact integer, which changes nothing below: a value too large to be exact as a double
  is far beyond every day count that leaves the cutoff a valid date.
\<close>

definition isWhiteSpace :: "char \<Rightarrow> bool" where
  "isWhiteSpace c = (c \<in> set [CHR '' '', CHR 0x09, CHR 0x0A, CHR 0x0B, CHR 0x0C, CHR 0x0D])"

definition isDigit :: "char \<Rightarrow> bool" where
  "isDigit c = (c \<in> set ''0123456789'')"

definition digitVal :: "char \<Rightarrow> int" where
  "digitVal c = int (of_char c) - 48"

definition parseInt :: "string \<Rightarrow> int option" where
  "parseInt str =
     (let s = dropWhile isWhiteSpace str;
          neg = (case s of [] \<Rightarrow> False | c # _ \<Rightarrow> c = CHR ''-'');
          r = (case s of [] \<Rightarrow> [] | c # cs \<Rightarrow> if c = CHR ''-'' \<or> c = CHR ''+'' then cs else s);
          ds = takeWhile isDigit r;
          n = foldl (\<lambda>a c. a * 10 + digitVal c) 0 ds
      in if ds = [] then None else Some (if neg then - n else n))"

subsection \<open>The cutoff date\<close>

text \<open>
  A \<^verbatim>\<open>Date\<close> is its time value in milliseconds since the epoch, or invalid (\<open>None\<close>).
  The local time zone is a parameter: \<open>utcOffset\<close> gives the offset of local time at
  an instant (ECMAScript \<^verbatim>\<open>LocalTZA(t, true)\<close>), \<open>localOffset\<close> the offset at a local
  time value (\<^verbatim>\<open>LocalTZA(t, false)\<close>).
\<close>

record zone =
  utcOffset :: "int \<Rightarrow> int"
  localOffset :: "int \<Rightarrow> int"

definition msPerDay :: int where
  "msPerDay = 86400000"

definition TimeClip :: "int \<Rightarrow> int option" where
  "TimeClip tv = (if \<bar>tv\<bar> > 8640000000000000 then None else Some tv)"

text \<open>
  \<^verbatim>\<open>cutoffDate.setDate(cutoffDate.getDate() - retentionDays)\<close> on \<^verbatim>\<open>new Date()\<close>.
  \<^verbatim>\<open>setDate\<close> takes the local time \<open>t\<close> of the date, replaces the day of the month and
  keeps the time within the day: \<^verbatim>\<open>MakeDate(MakeDay(year, month, dt), TimeWithinDay(t))\<close>.
  With \<open>dt\<close> the day of the month of \<open>t\<close> less \<open>retentionDays\<close>, \<^verbatim>\<open>MakeDay\<close> is the
  day number of \<open>t\<close> less \<open>retentionDays\<close>, so the new local time is
  \<open>t - retentionDays * msPerDay\<close>. It is converted back to UTC and clipped to the range
  of valid dates.
\<close>

definition setDate_back :: "zone \<Rightarrow> int \<Rightarrow> int \<Rightarrow> int option" where
  "setDate_back tz now retentionDays =
     (let t = now + utcOffset tz now;
          newDate = t - retentionDays * msPerDay
      in TimeClip (newDate - localOffset tz newDate))"

subsection \<open>The listing prefix and the loop of deletions\<close>

definition backupPrefix :: "string option \<Rightarrow> string" where
  "backupPrefix S3_KEY_PATH =
     (case S3_KEY_PATH of
        None \<Rightarrow> ''mongodb-backup-''
      | Some p \<Rightarrow> if p = [] then ''mongodb-backup-'' else p @ ''/mongodb-backup-'')"

definition isOld :: "int \<Rightarrow> s3_object \<Rightarrow> bool" where
  "isOld cutoffDate obj = (case LastModified obj of None \<Rightarrow> False | Some lm \<Rightarrow> lm < cutoffDate)"

text \<open>
  The \<^verbatim>\<open>for\<close> loop over \<^verbatim>\<open>objectsToDelete\<close>. There is no \<^verbatim>\<open>try\<close> inside the
  loop: a rejected \<^verbatim>\<open>DeleteObjectCommand\<close> leaves the loop with the error.
\<close>

fun deleteLoop :: "'t s3_client \<Rightarrow> s3_object list \<Rightarrow> 't \<Rightarrow> string option \<times> 't \<times> event list" where
  "deleteLoop cl [] t = (None, t, [])"
| "deleteLoop cl (obj # objs) t =
     (case Key obj of
        None \<Rightarrow> deleteLoop cl objs t
      | Some k \<Rightarrow>
          if k = [] then deleteLoop cl objs t
          else
            (case deleteObject cl k t of
               (Some err, t') \<Rightarrow> (Some err, t', [Sent (DeleteObject k)])
             | (None, t') \<Rightarrow>
                 (case deleteLoop cl objs t' of
                    (r, t'', ev) \<Rightarrow>
                      (r, t'', Sent (DeleteObject k) # Printed (DeletedOldBackup k) # ev))))"

subsection \<open>\<^verbatim>\<open>deleteOldBackups\<close>\<close>

text \<open>
  The result is the error the returned promise rejects with, if any, the store afterwards
  and what was observed. The line announcing the cleanup calls
  \<^verbatim>\<open>cutoffDate.toISOString()\<close>, which throws a \<^verbatim>\<open>RangeError\<close> on an invalid date, and it
  stands before the \<^verbatim>\<open>try\<close> block.
\<close>

definition deleteOldBackups ::
  "'t s3_client \<Rightarrow> zone \<Rightarrow> string option \<Rightarrow> string option \<Rightarrow> int \<Rightarrow> 't
     \<Rightarrow> failure option \<times> 't \<times> event list" where
  "deleteOldBackups cl tz RETENTION_DAYS S3_KEY_PATH now t =
     (case RETENTION_DAYS of
        None \<Rightarrow> (None, t, [Printed NoRetentionPeriod])
      | Some str \<Rightarrow>
          if str = [] then (None, t, [Printed NoRetentionPeriod])
          else
            (case parseInt str of
               None \<Rightarrow> (None, t, [Printed InvalidRetentionPeriod])
             | Some retentionDays \<Rightarrow>
                 if retentionDays \<le> 0 then (None, t, [Printed InvalidRetentionPeriod])
                 else
                   (case setDate_back tz now retentionDays of
                      None \<Rightarrow> (Some RangeError, t, [])
                    | Some cutoffDate \<Rightarrow>
                        (let pre = [Printed (CleaningUp retentionDays cutoffDate),
                                    Sent (ListObjectsV2 (backupPrefix S3_KEY_PATH))]
                         in case listObjects cl (backupPrefix S3_KEY_PATH) t of
                              (Inl err, t') \<Rightarrow> (None, t', pre @ [Printed (FailedToCleanup err)])
                            | (Inr None, t') \<Rightarrow> (None, t', pre @ [Printed NoBackupsFoundLine])
                            | (Inr (Some contents), t') \<Rightarrow>
                                (let objectsToDelete = filter (isOld cutoffDate) contents
                                 in if length objectsToDelete = 0
                                    then (None, t', pre @ [Printed NoOldBackups])
                                    else
                                      (case deleteLoop cl objectsToDelete t' of
                                         (None, t'', ev) \<Rightarrow>
                                           (None, t'',
                                            pre @ Printed (FoundOld (length objectsToDelete)) # ev
                                              @ [Printed (CleanupCompleted (length objectsToDelete))])
                                       | (Some err, t'', ev) \<Rightarrow>
                                           (None, t'',
                                            pre @ Printed (FoundOld (length objectsToDelete)) # ev
                                              @ [Printed (FailedToCleanup err)])))))))"

text \<open>The keys for which a delete command was sent, and the keys reported deleted.\<close>

fun sentDeletes :: "event list \<Rightarrow> string list" where
  "sentDeletes [] = []"
| "sentDeletes (Sent (DeleteObject k) # ev) = k # sentDeletes ev"
| "sentDeletes (_ # ev) = sentDeletes ev"



text \<open>The keys of the objects the loop sends a delete command for when nothing fails.\<close>

fun keysOf :: "s3_object list \<Rightarrow> string list" where
  "keysOf [] = []"
| "keysOf (obj # objs) =
     (case Key obj of
        None \<Rightarrow> keysOf objs
      | Some k \<Rightarrow> if k = [] then keysOf objs else k # keysOf objs)"

text \<open>
  The store after it has performed the deletions of the keys \<open>ks\<close> one after the other,
  and whether it accepts each of them in its turn.
\<close>

fun afterDeletes :: "'t s3_client \<Rightarrow> string list \<Rightarrow> 't \<Rightarrow> 't" where
  "afterDeletes cl [] t = t"
| "afterDeletes cl (k # ks) t = afterDeletes cl ks (snd (deleteObject cl k t))"

fun deletesSucceed :: "'t s3_client \<Rightarrow> string list \<Rightarrow> 't \<Rightarrow> bool" where
  "deletesSucceed cl [] t = True"
| "deletesSucceed cl (k # ks) t =
     (fst (deleteObject cl k t) = None \<and> deletesSucceed cl ks (snd (deleteObject cl k t)))"

text \<open>What the loop sends and prints for keys whose deletion succeeds.\<close>

definition deletionLines :: "string list \<Rightarrow> event list" where
  "deletionLines ks = concat (map (\<lambda>k. [Sent (DeleteObject k), Printed (DeletedOldBackup k)]) ks)"

section \<open>The backup run: \<^verbatim>\<open>createMongoDBBackup\<close> of index.ts\<close>

text \<open>
  \<^verbatim>\<open>mongodump\<close> is a subprocess: its outcome is a parameter (\<open>None\<close> for exit code 0).
  \<open>timestamp\<close> is the date of the run as \<^verbatim>\<open>YYYYMMDD\<close>. Calls on the local temporary file
  are taken to succeed. After the upload, \<^verbatim>\<open>await deleteOldBackups()\<close> is inside the
  \<^verbatim>\<open>try\<close> whose \<^verbatim>\<open>catch\<close> prints and rethrows.
\<close>

definition s3KeyFor :: "string option \<Rightarrow> string \<Rightarrow> string" where
  "s3KeyFor S3_KEY_PATH backupFileName =
     (case S3_KEY_PATH of
        None \<Rightarrow> backupFileName
      | Some p \<Rightarrow> if p = [] then backupFileName else p @ ''/'' @ backupFileName)"

definition createMongoDBBackup ::
  "'t s3_client \<Rightarrow> zone \<Rightarrow> string option \<Rightarrow> string option \<Rightarrow> string \<Rightarrow> int
     \<Rightarrow> string option \<Rightarrow> 't \<Rightarrow> failure option \<times> 't \<times> event list" where
  "createMongoDBBackup cl tz RETENTION_DAYS S3_KEY_PATH timestamp now mongodump t =
     (let backupFileName = ''mongodb-backup-'' @ timestamp @ ''.gz'' in
      case mongodump of
        Some msg \<Rightarrow> (Some (DumpFailed msg), t, [Printed StartingBackup, Printed BackupFailed])
      | None \<Rightarrow>
          (let s3Key = s3KeyFor S3_KEY_PATH backupFileName;
               pre = [Printed StartingBackup, Printed DumpCompleted, Sent (PutObject s3Key)]
           in case putObject cl s3Key t of
                (Some err, t') \<Rightarrow> (Some (S3Failed err), t', pre @ [Printed BackupFailed])
              | (None, t') \<Rightarrow>
                  (case deleteOldBackups cl tz RETENTION_DAYS S3_KEY_PATH now t' of
                     (None, t'', ev) \<Rightarrow>
                       (None, t'', pre @ Printed (UploadedTo s3Key) # Printed TempFileCleaned # ev)
                   | (Some e, t'', ev) \<Rightarrow>
                       (Some e, t'',
                        pre @ Printed (UploadedTo s3Key) # Printed TempFileCleaned # ev
                          @ [Printed BackupFailed]))))"

section \<open>A store to run the scripts on\<close>

text \<open>
  An in-memory store: the objects it holds, in listing order. \<open>memClient bad\<close> rejects
  a delete command for a key in \<open>bad\<close> and performs every other command.
\<close>

definition memClient :: "string list \<Rightarrow> (s3_object list) s3_client" where
  "memClient bad =
     \<lparr> listObjects = (\<lambda>p t.
          (Inr (Some (filter (\<lambda>obj. case Key obj of None \<Rightarrow> False | Some k \<Rightarrow> prefix p k) t)), t)),
       deleteObject = (\<lambda>k t.
          if k \<in> set bad then (Some ''AccessDenied'', t)
          else (None, filter (\<lambda>obj. Key obj \<noteq> Some k) t)),
       putObject = (\<lambda>k t. (None, t @ [\<lparr>Key = Some k, LastModified = None\<rparr>])) \<rparr>"

text \<open>
  The retention example of the specification: the run is at 2026-11-02T00:00:00Z and the
  three archives were last modified 1, 10 and 40 days before.
\<close>

definition now0 :: int where
  "now0 = 1793577600000"

definition store0 :: "s3_object list" where
  "store0 =
     [\<lparr>Key = Some ''mongodb-backup-20261101.gz'', LastModified = Some (now0 - 1 * msPerDay)\<rparr>,
      \<lparr>Key = Some ''mongodb-backup-20261023.gz'', LastModified = Some (now0 - 10 * msPerDay)\<rparr>,
      \<lparr>Key = Some ''mongodb-backup-20260923.gz'', LastModified = Some (now0 - 40 * msPerDay)\<rparr>]"

definition store1 :: "s3_object list" where
  "store1 =
     [\<lparr>Key = Some ''mongodb-backup-20260801.gz'', LastModified = Some (now0 - 93 * msPerDay)\<rparr>,
      \<lparr>Key = Some ''mongodb-backup-20260923.gz'', LastModified = Some (now0 - 40 * msPerDay)\<rparr>]"

text \<open>
  Two zones: UTC, and a zone two hours ahead of UTC until 2026-10-25T01:00:00Z and one hour
  ahead from then on (the end of summer time), where a local time up to 03:00 of that day
  is read as summer time.
\<close>

definition utc :: zone where
  "utc = \<lparr>utcOffset = (\<lambda>t. 0), localOffset = (\<lambda>t. 0)\<rparr>"




section \<open>Document values and the archive text\<close>

text \<open>
  A value of a document, as the database driver hands it to the script: strings, numbers
  (here those with an integral value), booleans, \<^verbatim>\<open>null\<close>, \<^verbatim>\<open>Date\<close> (written as its
  ISO-8601 rendering, which \<^verbatim>\<open>toISOString\<close> gives and which determines it),
  \<^verbatim>\<open>ObjectId\<close> (its 24 hexadecimal digits), arrays and nested documents. An object is the
  list of its entries in the order \<^verbatim>\<open>Object.entries\<close> yields them.
\<close>

datatype bval =
    VString string
  | VNumber int
  | VBool bool
  | VNull
  | VDate string
  | VObjectId string
  | VArray "bval list"
  | VObject "(string \<times> bval) list"

datatype json =
    JString string
  | JNumber int
  | JBool bool
  | JNull
  | JArray "json list"
  | JObject "(string \<times> json) list"

text \<open>
  The driver-based \<^verbatim>\<open>createMongoDBBackup\<close> writes the archive with
  \<^verbatim>\<open>JSON.stringify(backup, null, 2)\<close>. \<^verbatim>\<open>JSON.stringify\<close> replaces a value that has a
  \<^verbatim>\<open>toJSON\<close> method by what the method returns: the ISO string of a \<^verbatim>\<open>Date\<close>, the
  hexadecimal string of an \<^verbatim>\<open>ObjectId\<close>. The text is taken as the JSON value it denotes;
  compression, upload, download and decompression return it unchanged.
\<close>

fun JSON_stringify :: "bval \<Rightarrow> json" where
  "JSON_stringify (VString s) = JString s"
| "JSON_stringify (VNumber n) = JNumber n"
| "JSON_stringify (VBool b) = JBool b"
| "JSON_stringify VNull = JNull"
| "JSON_stringify (VDate d) = JString d"
| "JSON_stringify (VObjectId h) = JString h"
| "JSON_stringify (VArray vs) = JArray (map JSON_stringify vs)"
| "JSON_stringify (VObject kvs) = JObject (map (\<lambda>(k, v). (k, JSON_stringify v)) kvs)"

text \<open>
  \<^verbatim>\<open>decompressBackup\<close> reads the archive with \<^verbatim>\<open>EJSON.parse\<close> (relaxed mode, the
  default): a JSON string is a string, a number a number, and only an object with a key
  that starts with \<^verbatim>\<open>$\<close> is read as a typed value. Such objects, and keys holding a NUL
  character (which the parser rejects), are left out of the model: the result is \<open>None\<close>.
\<close>

definition plainKey :: "string \<Rightarrow> bool" where
  "plainKey k = (take 1 k \<noteq> ''$'' \<and> CHR 0x00 \<notin> set k)"

fun EJSON_parse :: "json \<Rightarrow> bval option" where
  "EJSON_parse (JString s) = Some (VString s)"
| "EJSON_parse (JNumber n) = Some (VNumber n)"
| "EJSON_parse (JBool b) = Some (VBool b)"
| "EJSON_parse JNull = Some VNull"
| "EJSON_parse (JArray js) = map_option VArray (those (map EJSON_parse js))"
| "EJSON_parse (JObject kvs) =
     (if list_all (\<lambda>(k, j). plainKey k) kvs
      then map_option VObject (those (map (\<lambda>(k, j). map_option (Pair k) (EJSON_parse j)) kvs))
      else None)"

text \<open>
  The values that \<^verbatim>\<open>JSON.stringify\<close> writes as they are: no \<^verbatim>\<open>Date\<close>, no
  \<^verbatim>\<open>ObjectId\<close>, and no key that the parser treats specially.
\<close>

fun jsonNative :: "bval \<Rightarrow> bool" where
  "jsonNative (VString s) = True"
| "jsonNative (VNumber n) = True"
| "jsonNative (VBool b) = True"
| "jsonNative VNull = True"
| "jsonNative (VDate d) = False"
| "jsonNative (VObjectId h) = False"
| "jsonNative (VArray vs) = list_all jsonNative vs"
| "jsonNative (VObject kvs) = list_all (\<lambda>(k, v). plainKey k \<and> jsonNative v) kvs"

section \<open>The snapshot: \<^verbatim>\<open>BackupData\<close> of restore.ts\<close>

text \<open>
  \<open>documents\<close> and \<open>indexes\<close> are optional because \<^verbatim>\<open>restoreToMongoDB\<close> tests them
  before use. An index definition is an object. A database is the entries of its
  \<^verbatim>\<open>collections\<close> object.
\<close>

type_synonym index_def = "(string \<times> bval) list"

record CollectionData =
  documents :: "bval list option"
  indexes :: "index_def list option"

type_synonym DatabaseData = "(string \<times> CollectionData) list"

record BackupData =
  databases :: "(string \<times> DatabaseData) list"
  timestamp :: string

text \<open>The JavaScript object that \<^verbatim>\<open>createMongoDBBackup\<close> assembles and stringifies.\<close>

definition collection_object :: "CollectionData \<Rightarrow> bval" where
  "collection_object c =
     VObject ((case documents c of None \<Rightarrow> [] | Some ds \<Rightarrow> [(''documents'', VArray ds)])
              @ (case indexes c of None \<Rightarrow> [] | Some ixs \<Rightarrow> [(''indexes'', VArray (map VObject ixs))]))"

definition database_object :: "DatabaseData \<Rightarrow> bval" where
  "database_object d =
     VObject [(''collections'', VObject (map (\<lambda>(collName, c). (collName, collection_object c)) d))]"

definition backup_object :: "BackupData \<Rightarrow> bval" where
  "backup_object b =
     VObject [(''databases'', VObject (map (\<lambda>(dbName, d). (dbName, database_object d)) (databases b))),
              (''timestamp'', VString (timestamp b))]"

definition encode :: "BackupData \<Rightarrow> json" where
  "encode b = JSON_stringify (backup_object b)"

section \<open>The Producer: the snapshot built by the driver-based \<^verbatim>\<open>createMongoDBBackup\<close>\<close>







section \<open>The database driver as the Restorer uses it\<close>

text \<open>
  The driver is outside the repository, so it is a parameter: a call takes the state of
  the database server and returns the error it throws, if any, with the new state. Of an
  error the script reads \<^verbatim>\<open>code\<close>, \<^verbatim>\<open>codeName\<close>, \<^verbatim>\<open>message\<close> and
  \<^verbatim>\<open>result?.insertedCount\<close>. The error of a bulk insert also carries \<^verbatim>\<open>writeErrors\<close>,
  the failures of the individual documents, each with the position of the document in the
  bulk and its code; the script does not read them. The flag of \<open>InsertMany\<close> is the
  option \<^verbatim>\<open>ordered\<close> of the call.
\<close>

datatype db_command =
    Connect
  | Close
  | Drop string string
  | InsertMany string string "bval list" bool
  | CreateIndex string string "bval option" index_def

record driver_error =
  code :: "int option"
  codeName :: "string option"
  message :: string
  result_insertedCount :: "nat option"
  writeErrors :: "(nat \<times> int) list"

type_synonym 's driver = "db_command \<Rightarrow> 's \<Rightarrow> driver_error option \<times> 's"

datatype restore_line =
    ConnectedToMongoDB
  | SkippingDatabase string string
  | RestoringDatabase string
  | RestoringCollection string
  | DroppedCollection string
  | WarningDropping string
  | InsertedDocuments nat
  | InsertedWithDuplicates nat int
  | CreatedIndex "bval option"
  | IndexAlreadyExists "bval option"
  | WarningCreatingIndex "bval option" string
  | RestoreCompleted
  | ConnectionClosed
  | NoBackupsInS3

datatype restore_event = Called db_command | Downloaded string | Told restore_line

text \<open>
  The script throws the errors of its collaborators as they are. The constructors say
  where an error that ends a restore comes from, with the names of the specification.
\<close>

datatype restore_failure =
    NoBackupsFound
  | ListingFailed string
  | ArchiveFailed string
  | ConnectionFailed driver_error
  | InvalidURL
  | RestoreWriteFailed driver_error

section \<open>\<^verbatim>\<open>restoreToMongoDB\<close> of restore.ts\<close>

text \<open>\<^verbatim>\<open>if (dropExisting) { try { await collection.drop() } catch ... }\<close>\<close>

definition dropStep :: "'s driver \<Rightarrow> bool \<Rightarrow> string \<Rightarrow> string \<Rightarrow> 's \<Rightarrow> 's \<times> restore_event list" where
  "dropStep drv dropExisting dbName collName s =
     (if dropExisting then
        (case drv (Drop dbName collName) s of
           (None, s') \<Rightarrow> (s', [Called (Drop dbName collName), Told (DroppedCollection collName)])
         | (Some e, s') \<Rightarrow>
             (s', Called (Drop dbName collName)
                  # (if codeName e \<noteq> Some ''NamespaceNotFound''
                     then [Told (WarningDropping (message e))] else [])))
      else (s, []))"

text \<open>
  The insert step: one unordered \<^verbatim>\<open>insertMany\<close> when there are documents. An error with
  code 11000 is reported and absorbed; any other error is thrown again.
\<close>

definition insertStep ::
  "'s driver \<Rightarrow> string \<Rightarrow> string \<Rightarrow> bval list option \<Rightarrow> 's
     \<Rightarrow> driver_error option \<times> 's \<times> restore_event list" where
  "insertStep drv dbName collName docs s =
     (case docs of
        None \<Rightarrow> (None, s, [])
      | Some ds \<Rightarrow>
          if length ds > 0 then
            (case drv (InsertMany dbName collName ds False) s of
               (None, s') \<Rightarrow>
                 (None, s', [Called (InsertMany dbName collName ds False),
                             Told (InsertedDocuments (length ds))])
             | (Some e, s') \<Rightarrow>
                 if code e = Some 11000 then
                   (let insertedCount = (case result_insertedCount e of None \<Rightarrow> 0 | Some n \<Rightarrow> n)
                    in (None, s', [Called (InsertMany dbName collName ds False),
                                   Told (InsertedWithDuplicates insertedCount
                                           (int (length ds) - int insertedCount))]))
                 else (Some e, s', [Called (InsertMany dbName collName ds False)]))
          else (None, s, []))"

text \<open>
  One index of the loop: the \<^verbatim>\<open>_id_\<close> index is skipped; otherwise \<^verbatim>\<open>v\<close> and \<^verbatim>\<open>ns\<close>
  are deleted from a copy, \<^verbatim>\<open>key\<close> is split off, and \<^verbatim>\<open>createIndex(key, options)\<close> is
  called inside a \<^verbatim>\<open>try\<close> whose \<^verbatim>\<open>catch\<close> only prints.
\<close>

definition indexSpec :: "index_def \<Rightarrow> index_def" where
  "indexSpec index = filter (\<lambda>(k, v). k \<noteq> ''v'' \<and> k \<noteq> ''ns'') index"

definition indexOptions :: "index_def \<Rightarrow> index_def" where
  "indexOptions index = filter (\<lambda>(k, v). k \<noteq> ''key'') (indexSpec index)"

definition isDefaultIdIndex :: "index_def \<Rightarrow> bool" where
  "isDefaultIdIndex index = (map_of index ''name'' = Some (VString ''_id_''))"

definition createIndexCall :: "string \<Rightarrow> string \<Rightarrow> index_def \<Rightarrow> db_command" where
  "createIndexCall dbName collName index =
     CreateIndex dbName collName (map_of (indexSpec index) ''key'') (indexOptions index)"

definition restoreIndex ::
  "'s driver \<Rightarrow> string \<Rightarrow> string \<Rightarrow> index_def \<Rightarrow> 's \<Rightarrow> 's \<times> restore_event list" where
  "restoreIndex drv dbName collName index s =
     (if isDefaultIdIndex index then (s, [])
      else
        (case drv (createIndexCall dbName collName index) s of
           (None, s') \<Rightarrow>
             (s', [Called (createIndexCall dbName collName index),
                   Told (CreatedIndex (map_of index ''name''))])
         | (Some e, s') \<Rightarrow>
             if code e = Some 85 \<or> code e = Some 86
             then (s', [Called (createIndexCall dbName collName index),
                        Told (IndexAlreadyExists (map_of index ''name''))])
             else (s', [Called (createIndexCall dbName collName index),
                        Told (WarningCreatingIndex (map_of index ''name'') (message e))])))"

fun restoreIndexes ::
  "'s driver \<Rightarrow> string \<Rightarrow> string \<Rightarrow> index_def list \<Rightarrow> 's \<Rightarrow> 's \<times> restore_event list" where
  "restoreIndexes drv dbName collName [] s = (s, [])"
| "restoreIndexes drv dbName collName (index # rest) s =
     (case restoreIndex drv dbName collName index s of
        (s', ev) \<Rightarrow>
          (case restoreIndexes drv dbName collName rest s' of
             (s'', ev') \<Rightarrow> (s'', ev @ ev')))"

text \<open>The body of the loop over the collections of a database.\<close>

definition restoreCollection ::
  "'s driver \<Rightarrow> bool \<Rightarrow> string \<Rightarrow> string \<times> CollectionData \<Rightarrow> 's
     \<Rightarrow> driver_error option \<times> 's \<times> restore_event list" where
  "restoreCollection drv dropExisting dbName entry s =
     (case entry of (collName, collData) \<Rightarrow>
        (case dropStep drv dropExisting dbName collName s of
           (s1, ev1) \<Rightarrow>
             (case insertStep drv dbName collName (documents collData) s1 of
                (Some e, s2, ev2) \<Rightarrow> (Some e, s2, Told (RestoringCollection collName) # ev1 @ ev2)
              | (None, s2, ev2) \<Rightarrow>
                  (case restoreIndexes drv dbName collName
                          (case indexes collData of None \<Rightarrow> [] | Some ixs \<Rightarrow> ixs) s2 of
                     (s3, ev3) \<Rightarrow>
                       (None, s3, Told (RestoringCollection collName) # ev1 @ ev2 @ ev3)))))"

fun restoreCollections ::
  "'s driver \<Rightarrow> bool \<Rightarrow> string \<Rightarrow> DatabaseData \<Rightarrow> 's
     \<Rightarrow> driver_error option \<times> 's \<times> restore_event list" where
  "restoreCollections drv dropExisting dbName [] s = (None, s, [])"
| "restoreCollections drv dropExisting dbName (entry # rest) s =
     (case restoreCollection drv dropExisting dbName entry s of
        (Some e, s', ev) \<Rightarrow> (Some e, s', ev)
      | (None, s', ev) \<Rightarrow>
          (case restoreCollections drv dropExisting dbName rest s' of
             (r, s'', ev') \<Rightarrow> (r, s'', ev @ ev')))"

text \<open>The loop over the databases of the snapshot, with the test on the URI's database.\<close>

fun restoreDatabases ::
  "'s driver \<Rightarrow> bool \<Rightarrow> string \<Rightarrow> (string \<times> DatabaseData) list \<Rightarrow> 's
     \<Rightarrow> driver_error option \<times> 's \<times> restore_event list" where
  "restoreDatabases drv dropExisting specificDatabase [] s = (None, s, [])"
| "restoreDatabases drv dropExisting specificDatabase ((dbName, dbData) # rest) s =
     (if specificDatabase \<noteq> [] \<and> dbName \<noteq> specificDatabase then
        (case restoreDatabases drv dropExisting specificDatabase rest s of
           (r, s', ev) \<Rightarrow> (r, s', Told (SkippingDatabase dbName specificDatabase) # ev))
      else
        (case restoreCollections drv dropExisting dbName dbData s of
           (Some e, s', ev) \<Rightarrow> (Some e, s', Told (RestoringDatabase dbName) # ev)
         | (None, s', ev) \<Rightarrow>
             (case restoreDatabases drv dropExisting specificDatabase rest s' of
                (r, s'', ev') \<Rightarrow> (r, s'', Told (RestoringDatabase dbName) # ev @ ev'))))"

text \<open>
  \<^verbatim>\<open>finally { await client.close() }\<close>: an error thrown by \<^verbatim>\<open>close\<close> replaces the
  outcome of the \<^verbatim>\<open>try\<close> block.
\<close>

definition closeClient ::
  "'s driver \<Rightarrow> restore_failure option \<times> 's \<times> restore_event list
     \<Rightarrow> restore_failure option \<times> 's \<times> restore_event list" where
  "closeClient drv run =
     (case run of (r, s, ev) \<Rightarrow>
        (case drv Close s of
           (None, s') \<Rightarrow> (r, s', ev @ [Called Close, Told ConnectionClosed])
         | (Some e, s') \<Rightarrow> (Some (ConnectionFailed e), s', ev @ [Called Close])))"

text \<open>
  \<open>pathname\<close> is \<^verbatim>\<open>new URL(MONGODB_URI).pathname\<close>, or \<open>None\<close> when the constructor
  throws.
\<close>

definition restoreToMongoDB ::
  "'s driver \<Rightarrow> string option \<Rightarrow> BackupData \<Rightarrow> bool \<Rightarrow> 's
     \<Rightarrow> restore_failure option \<times> 's \<times> restore_event list" where
  "restoreToMongoDB drv pathname backup dropExisting s =
     closeClient drv
       (case drv Connect s of
          (Some e, s1) \<Rightarrow> (Some (ConnectionFailed e), s1, [Called Connect])
        | (None, s1) \<Rightarrow>
            (case pathname of
               None \<Rightarrow> (Some InvalidURL, s1, [Called Connect, Told ConnectedToMongoDB])
             | Some p \<Rightarrow>
                 (case restoreDatabases drv dropExisting (drop 1 p) (databases backup) s1 of
                    (Some e, s2, ev) \<Rightarrow>
                      (Some (RestoreWriteFailed e), s2,
                       Called Connect # Told ConnectedToMongoDB # ev)
                  | (None, s2, ev) \<Rightarrow>
                      (None, s2,
                       Called Connect # Told ConnectedToMongoDB # ev @ [Told RestoreCompleted]))))"

section \<open>Choosing the archive: \<^verbatim>\<open>listBackups\<close> and \<^verbatim>\<open>restore\<close>\<close>

record backup_entry =
  key :: string
  lastModified :: int

definition entryOf :: "s3_object \<Rightarrow> backup_entry option" where
  "entryOf obj =
     (case Key obj of
        None \<Rightarrow> None
      | Some k \<Rightarrow>
          if k = [] then None
          else (case LastModified obj of
                  None \<Rightarrow> None
                | Some lm \<Rightarrow> Some \<lparr>key = k, lastModified = lm\<rparr>))"

text \<open>
  \<^verbatim>\<open>sort((a, b) => b.lastModified.getTime() - a.lastModified.getTime())\<close> is a stable sort
  by descending time: \<open>sort_key\<close>, a stable insertion sort, on the negated time.
\<close>

definition listBackups :: "'t s3_client \<Rightarrow> string option \<Rightarrow> 't \<Rightarrow> string + backup_entry list" where
  "listBackups cl S3_KEY_PATH t =
     (case fst (listObjects cl (backupPrefix S3_KEY_PATH) t) of
        Inl err \<Rightarrow> Inl err
      | Inr None \<Rightarrow> Inr []
      | Inr (Some contents) \<Rightarrow>
          if length contents = 0 then Inr []
          else Inr (sort_key (\<lambda>b. - lastModified b) (List.map_filter entryOf contents)))"

text \<open>
  \<^verbatim>\<open>restore\<close>: \<open>fetch\<close> stands for \<^verbatim>\<open>downloadBackup\<close> followed by
  \<^verbatim>\<open>decompressBackup\<close>. With no backup found the script prints and calls
  \<^verbatim>\<open>process.exit(1)\<close>.
\<close>

definition latestBackup :: "'t s3_client \<Rightarrow> string option \<Rightarrow> 't \<Rightarrow> restore_failure + string" where
  "latestBackup cl S3_KEY_PATH t =
     (case listBackups cl S3_KEY_PATH t of
        Inl err \<Rightarrow> Inl (ListingFailed err)
      | Inr [] \<Rightarrow> Inl NoBackupsFound
      | Inr (backup # _) \<Rightarrow> Inr (key backup))"

definition selectBackup ::
  "'t s3_client \<Rightarrow> string option \<Rightarrow> string option \<Rightarrow> 't \<Rightarrow> restore_failure + string" where
  "selectBackup cl S3_KEY_PATH backupFileName t =
     (case backupFileName of
        None \<Rightarrow> latestBackup cl S3_KEY_PATH t
      | Some f \<Rightarrow>
          if f = [] then latestBackup cl S3_KEY_PATH t
          else Inr (s3KeyFor S3_KEY_PATH f))"

definition restore ::
  "'t s3_client \<Rightarrow> 's driver \<Rightarrow> (string \<Rightarrow> string + BackupData) \<Rightarrow> string option \<Rightarrow> string option
     \<Rightarrow> string option \<Rightarrow> bool \<Rightarrow> 't \<Rightarrow> 's \<Rightarrow> restore_failure option \<times> 's \<times> restore_event list" where
  "restore cl drv fetch S3_KEY_PATH pathname backupFileName dropExisting t s =
     (case selectBackup cl S3_KEY_PATH backupFileName t of
        Inl NoBackupsFound \<Rightarrow> (Some NoBackupsFound, s, [Told NoBackupsInS3])
      | Inl f \<Rightarrow> (Some f, s, [])
      | Inr s3Key \<Rightarrow>
          (case fetch s3Key of
             Inl msg \<Rightarrow> (Some (ArchiveFailed msg), s, [Downloaded s3Key])
           | Inr backup \<Rightarrow>
               (case restoreToMongoDB drv pathname backup dropExisting s of
                  (r, s', ev) \<Rightarrow> (r, s', Downloaded s3Key # ev))))"

text \<open>What is read off the events of a restore.\<close>

fun calls :: "restore_event list \<Rightarrow> db_command list" where
  "calls [] = []"
| "calls (Called c # ev) = c # calls ev"
| "calls (_ # ev) = calls ev"

fun isInsertMany :: "db_command \<Rightarrow> bool" where
  "isInsertMany (InsertMany dbName collName ds ord) = True"
| "isInsertMany _ = False"

fun isCreateIndex :: "db_command \<Rightarrow> bool" where
  "isCreateIndex (CreateIndex dbName collName k opts) = True"
| "isCreateIndex _ = False"


text \<open>The state of the server after the driver has performed the calls one after the other.\<close>

fun replay :: "'s driver \<Rightarrow> db_command list \<Rightarrow> 's \<Rightarrow> 's" where
  "replay drv [] s = s"
| "replay drv (c # cs) s = replay drv cs (snd (drv c s))"

text \<open>
  The calls that restoring a collection makes when its bulk insert does not end the
  restore, and those of a whole snapshot for the database named in the URI.
\<close>

definition collectionCalls :: "bool \<Rightarrow> string \<Rightarrow> string \<times> CollectionData \<Rightarrow> db_command list" where
  "collectionCalls dropExisting dbName entry =
     (case entry of (collName, c) \<Rightarrow>
        (if dropExisting then [Drop dbName collName] else [])
        @ (case documents c of
             None \<Rightarrow> []
           | Some ds \<Rightarrow> if ds = [] then [] else [InsertMany dbName collName ds False])
        @ map (createIndexCall dbName collName)
            (filter (\<lambda>i. map_of i ''name'' \<noteq> Some (VString ''_id_''))
               (case indexes c of None \<Rightarrow> [] | Some ixs \<Rightarrow> ixs)))"


section \<open>A database server\<close>

text \<open>
  Modelled from the spec: the database driver and the server behind it, which are not part
  of the repository. The specification (4.4 and 6) asks of them an unordered bulk insert
  with per-item failure isolation, which inserts what is new and skips what collides, the
  drop of a collection, and the creation of an index from a key and options, which fails
  with its own codes when an index of that name or of that key exists. A document collides
  when a held document has its \<^verbatim>\<open>_id\<close>; \<open>valid\<close> says which documents the server
  accepts otherwise (code 121 for the others). An ordered bulk stops at its first failure.
  The error of a failed bulk has the code of its first write error, as the driver sets it.
\<close>

record server =
  stored :: "string \<times> string \<Rightarrow> bval list"
  created :: "string \<times> string \<Rightarrow> (bval option \<times> index_def) list"

definition docId :: "bval \<Rightarrow> bval option" where
  "docId doc = (case doc of VObject kvs \<Rightarrow> map_of kvs ''_id'' | _ \<Rightarrow> None)"

definition collides :: "bval list \<Rightarrow> bval \<Rightarrow> bool" where
  "collides held doc = (docId doc \<noteq> None \<and> docId doc \<in> set (map docId held))"

fun bulkInsert ::
  "(bval \<Rightarrow> bool) \<Rightarrow> bool \<Rightarrow> bval list \<Rightarrow> bval list \<Rightarrow> nat \<Rightarrow> bval list \<times> (nat \<times> int) list" where
  "bulkInsert valid ordered held [] i = (held, [])"
| "bulkInsert valid ordered held (doc # docs) i =
     (if \<not> valid doc \<or> collides held doc then
        (if ordered then (held, [(i, if \<not> valid doc then 121 else 11000)])
         else
           (case bulkInsert valid ordered held docs (Suc i) of
              (held', ws) \<Rightarrow> (held', (i, if \<not> valid doc then 121 else 11000) # ws)))
      else bulkInsert valid ordered (held @ [doc]) docs (Suc i))"

definition bulkError :: "nat \<Rightarrow> (nat \<times> int) list \<Rightarrow> driver_error option" where
  "bulkError inserted ws =
     (case ws of
        [] \<Rightarrow> None
      | (i, c) # _ \<Rightarrow>
          Some \<lparr>code = Some c, codeName = None, message = ''write operation failed'',
                result_insertedCount = Some inserted, writeErrors = ws\<rparr>)"

definition indexError :: "int \<Rightarrow> string \<Rightarrow> driver_error" where
  "indexError c name =
     \<lparr>code = Some c, codeName = Some name, message = name, result_insertedCount = None,
      writeErrors = []\<rparr>"

definition serverDriver :: "(bval \<Rightarrow> bool) \<Rightarrow> server driver" where
  "serverDriver valid call s =
     (case call of
        Connect \<Rightarrow> (None, s)
      | Close \<Rightarrow> (None, s)
      | Drop dbName collName \<Rightarrow>
          (None, s\<lparr>stored := (stored s)((dbName, collName) := []),
                    created := (created s)((dbName, collName) := [])\<rparr>)
      | InsertMany dbName collName docs ordered \<Rightarrow>
          (case bulkInsert valid ordered (stored s (dbName, collName)) docs 0 of
             (held, ws) \<Rightarrow>
               (bulkError (length held - length (stored s (dbName, collName))) ws,
                s\<lparr>stored := (stored s)((dbName, collName) := held)\<rparr>))
      | CreateIndex dbName collName k opts \<Rightarrow>
          (if k = None then (Some (indexError 67 ''CannotCreateIndex''), s)
           else if (k, opts) \<in> set (created s (dbName, collName)) then (None, s)
           else if map_of opts ''name'' \<noteq> None
                   \<and> map_of opts ''name''
                       \<in> set (map (\<lambda>(k', opts'). map_of opts' ''name'') (created s (dbName, collName)))
           then (Some (indexError 86 ''IndexKeySpecsConflict''), s)
           else if k \<in> set (map fst (created s (dbName, collName)))
           then (Some (indexError 85 ''IndexOptionsConflict''), s)
           else (None, s\<lparr>created := (created s)((dbName, collName)
                                         := created s (dbName, collName) @ [(k, opts)])\<rparr>)))"

definition emptyServer :: server where
  "emptyServer = \<lparr>stored = (\<lambda>c. []), created = (\<lambda>c. [])\<rparr>"

section \<open>A database and a snapshot to run the Restorer on\<close>

text \<open>
  \<open>scripted answer\<close> is a driver without state that answers each call as \<open>answer\<close>
  says; \<open>recording answer\<close> answers alike and keeps the calls it has received.
  \<open>duplicateKey n\<close> is the bulk write error of one duplicate key with \<open>n\<close> documents
  inserted.
\<close>

definition scripted :: "(db_command \<Rightarrow> driver_error option) \<Rightarrow> unit driver" where
  "scripted answer c s = (answer c, s)"

definition recording :: "(db_command \<Rightarrow> driver_error option) \<Rightarrow> (db_command list) driver" where
  "recording answer c s = (answer c, s @ [c])"


definition serverError :: "int \<Rightarrow> string \<Rightarrow> driver_error" where
  "serverError c name =
     \<lparr>code = Some c, codeName = Some name, message = name, result_insertedCount = None,
      writeErrors = []\<rparr>"




definition ada :: bval where
  "ada = VObject [(''_id'', VObjectId ''65a1b2c3d4e5f60718293a4b''),
                  (''email'', VString ''ada@example.org''),
                  (''createdAt'', VDate ''2024-01-15T10:30:00.000Z'')]"

definition bob :: bval where
  "bob = VObject [(''_id'', VObjectId ''65a1b2c3d4e5f60718293a4c''),
                  (''email'', VString ''bob@example.org''),
                  (''createdAt'', VDate ''2024-02-01T08:00:00.000Z'')]"

definition idIndex :: index_def where
  "idIndex = [(''v'', VNumber 2), (''key'', VObject [(''_id'', VNumber 1)]), (''name'', VString ''_id_'')]"

definition emailIndex :: index_def where
  "emailIndex =
     [(''v'', VNumber 2), (''key'', VObject [(''email'', VNumber 1)]),
      (''name'', VString ''email_1''), (''unique'', VBool True)]"

definition users :: CollectionData where
  "users = \<lparr>documents = Some [ada, bob], indexes = Some [idIndex, emailIndex]\<rparr>"

definition emptyCollection :: CollectionData where
  "emptyCollection = \<lparr>documents = Some [], indexes = Some [idIndex]\<rparr>"

definition backup0 :: BackupData where
  "backup0 =
     \<lparr>databases = [(''shop'', [(''users'', users)]), (''audit'', [(''events'', emptyCollection)])],
      timestamp = ''2026-11-01T02:00:00.000Z''\<rparr>"




section \<open>Retention cleanup: what holds\<close>

lemma sentDeletes_append: "sentDeletes (a @ b) = sentDeletes a @ sentDeletes b"
  by (induction a rule: sentDeletes.induct) simp_all



lemma deletionLines_Cons:
  "deletionLines (k # ks) = Sent (DeleteObject k) # Printed (DeletedOldBackup k) # deletionLines ks"
  by (simp add: deletionLines_def)


lemma deleteLoop_all:
  "deletesSucceed cl (keysOf objs) t \<Longrightarrow>
     deleteLoop cl objs t = (None, afterDeletes cl (keysOf objs) t, deletionLines (keysOf objs))"
proof (induction objs arbitrary: t)
  case Nil
  show ?case by (simp add: deletionLines_def)
next
  case (Cons obj objs)
  show ?case
  proof (cases "Key obj")
    case None
    then show ?thesis using Cons by simp
  next
    case (Some k)
    show ?thesis
    proof (cases "k = []")
      case True
      then show ?thesis using Some Cons by simp
    next
      case False
      obtain tListed where d: "deleteObject cl k t = (None, tListed)"
        using Cons.prems Some False by (cases "deleteObject cl k t") auto
      have "deletesSucceed cl (keysOf objs) tListed"
        using Cons.prems Some False d by simp
      then show ?thesis
        using Cons.IH [of tListed] Some False d by (simp add: deletionLines_Cons)
    qed
  qed
qed

lemma deleteLoop_stops:
  "keysOf objs = pre @ k # post \<Longrightarrow> deletesSucceed cl pre t \<Longrightarrow>
   deleteObject cl k (afterDeletes cl pre t) = (Some err, t2) \<Longrightarrow>
     deleteLoop cl objs t = (Some err, t2, deletionLines pre @ [Sent (DeleteObject k)])"
proof (induction objs arbitrary: t pre)
  case Nil
  then show ?case by simp
next
  case (Cons obj objs)
  show ?case
  proof (cases "Key obj")
    case None
    then show ?thesis using Cons by simp
  next
    case (Some k0)
    show ?thesis
    proof (cases "k0 = []")
      case True
      then show ?thesis using Some Cons by simp
    next
      case False
      then have ks: "k0 # keysOf objs = pre @ k # post"
        using Cons.prems(1) Some by simp
      show ?thesis
      proof (cases pre)
        case Nil
        then have "k0 = k" using ks by simp
        then show ?thesis using Nil Some False Cons.prems(3) by (simp add: deletionLines_def)
      next
        case (Cons p pre')
        then have p: "p = k0" "keysOf objs = pre' @ k # post" using ks by simp_all
        obtain tListed where d: "deleteObject cl k0 t = (None, tListed)"
          using Cons.prems(2) Cons p by (cases "deleteObject cl k0 t") auto
        have "deletesSucceed cl pre' tListed" "deleteObject cl k (afterDeletes cl pre' tListed) = (Some err, t2)"
          using Cons.prems(2,3) Cons p d by simp_all
        then have "deleteLoop cl objs tListed = (Some err, t2, deletionLines pre' @ [Sent (DeleteObject k)])"
          using Cons.IH [OF p(2)] by simp
        then show ?thesis using Some False d Cons p by (simp add: deletionLines_Cons)
      qed
    qed
  qed
qed

lemma parseInt_nonempty: "parseInt str = Some n \<Longrightarrow> str \<noteq> []"
  by (auto simp: parseInt_def)


lemma deleteOldBackups_error:
  "fst (deleteOldBackups cl tz RETENTION_DAYS kp now t) = Some e \<Longrightarrow>
     e = RangeError \<and> (\<exists>str n. RETENTION_DAYS = Some str \<and> parseInt str = Some n \<and> 0 < n \<and> setDate_back tz now n = None)"
  by (auto simp: deleteOldBackups_def Let_def split: option.splits if_splits prod.splits sum.splits)



lemma parseInt_30: "parseInt ''30'' = Some 30"
  by (simp add: parseInt_def isWhiteSpace_def isDigit_def digitVal_def)


text \<open>
  C3, as stated, fails. Two archives are older than the cutoff and the store rejects the
  deletion of the first: no delete command is sent for the second, which stays in the store.
\<close>

theorem retention_failed_delete_counterexample:
  "keysOf (filter (isOld (now0 - 30 * msPerDay)) store1)
     = [''mongodb-backup-20260801.gz'', ''mongodb-backup-20260923.gz'']
   \<and> deleteOldBackups (memClient [''mongodb-backup-20260801.gz'']) utc (Some ''30'') None now0 store1
     = (None, store1,
        [Printed (CleaningUp 30 (now0 - 30 * msPerDay)),
         Sent (ListObjectsV2 ''mongodb-backup-''),
         Printed (FoundOld 2),
         Sent (DeleteObject ''mongodb-backup-20260801.gz''),
         Printed (FailedToCleanup ''AccessDenied'')])"
  by (simp add: deleteOldBackups_def Let_def parseInt_30 setDate_back_def TimeClip_def isOld_def
      store1_def memClient_def backupPrefix_def now0_def msPerDay_def utc_def)

text \<open>
  C3, amended. The expired archives are deleted in listing order. When the store accepts
  every deletion, all of them are deleted. When the store rejects the deletion of one of
  them, having accepted those before it, the cleanup ends there: the archives before it are
  deleted, the store is left as the rejected call leaves it, no command is sent for the
  archives after it, and the failure is printed. In both cases cleanup returns without an
  error.
\<close>

theorem retention_stops_at_first_failed_delete:
  assumes "RETENTION_DAYS = Some str" and "parseInt str = Some n" and "0 < n"
    and "setDate_back tz now n = Some cutoff"
    and "listObjects cl (backupPrefix kp) t = (Inr (Some contents), tListed)"
    and "old = filter (isOld cutoff) contents"
  shows "(deletesSucceed cl (keysOf old) tListed \<longrightarrow>
            deleteOldBackups cl tz RETENTION_DAYS kp now t
              = (None, afterDeletes cl (keysOf old) tListed,
                 [Printed (CleaningUp n cutoff), Sent (ListObjectsV2 (backupPrefix kp))]
                 @ (if old = [] then [Printed NoOldBackups]
                    else Printed (FoundOld (length old)) # deletionLines (keysOf old)
                         @ [Printed (CleanupCompleted (length old))])))
       \<and> (\<forall>pre k post err tFailed.
             keysOf old = pre @ k # post \<and> deletesSucceed cl pre tListed
             \<and> deleteObject cl k (afterDeletes cl pre tListed) = (Some err, tFailed)
             \<longrightarrow> deleteOldBackups cl tz RETENTION_DAYS kp now t
                   = (None, tFailed,
                      [Printed (CleaningUp n cutoff), Sent (ListObjectsV2 (backupPrefix kp)),
                       Printed (FoundOld (length old))]
                      @ deletionLines pre
                      @ [Sent (DeleteObject k), Printed (FailedToCleanup err)]))"
proof (intro conjI impI allI)
  have ne: "str \<noteq> []" using assms(2) parseInt_nonempty by blast
  {
    assume "deletesSucceed cl (keysOf old) tListed"
    then have "deleteLoop cl old tListed
        = (None, afterDeletes cl (keysOf old) tListed, deletionLines (keysOf old))"
      by (rule deleteLoop_all)
    then show "deleteOldBackups cl tz RETENTION_DAYS kp now t
              = (None, afterDeletes cl (keysOf old) tListed,
                 [Printed (CleaningUp n cutoff), Sent (ListObjectsV2 (backupPrefix kp))]
                 @ (if old = [] then [Printed NoOldBackups]
                    else Printed (FoundOld (length old)) # deletionLines (keysOf old)
                         @ [Printed (CleanupCompleted (length old))]))"
      using assms ne by (simp add: deleteOldBackups_def Let_def)
  }
  fix pre k post err tFailed
  assume f: "keysOf old = pre @ k # post \<and> deletesSucceed cl pre tListed
             \<and> deleteObject cl k (afterDeletes cl pre tListed) = (Some err, tFailed)"
  then have lp: "deleteLoop cl old tListed = (Some err, tFailed, deletionLines pre @ [Sent (DeleteObject k)])"
    using deleteLoop_stops [of old pre k post cl tListed err tFailed] by blast
  have "old \<noteq> []" using f by auto
  then show "deleteOldBackups cl tz RETENTION_DAYS kp now t
                   = (None, tFailed,
                      [Printed (CleaningUp n cutoff), Sent (ListObjectsV2 (backupPrefix kp)),
                       Printed (FoundOld (length old))]
                      @ deletionLines pre
                      @ [Sent (DeleteObject k), Printed (FailedToCleanup err)])"
    using assms ne lp by (simp add: deleteOldBackups_def Let_def)
qed

text \<open>
  Two expired archives, in a store that rejects the deletion of the second and in a store
  that accepts both.
\<close>

theorem retention_stops_at_first_failed_delete_witness:
  "deleteOldBackups (memClient [''mongodb-backup-20260923.gz'']) utc (Some ''30'') None now0 store1
     = (None,
        [\<lparr>Key = Some ''mongodb-backup-20260923.gz'', LastModified = Some (now0 - 40 * msPerDay)\<rparr>],
        [Printed (CleaningUp 30 (now0 - 30 * msPerDay)), Sent (ListObjectsV2 ''mongodb-backup-''),
         Printed (FoundOld 2),
         Sent (DeleteObject ''mongodb-backup-20260801.gz''),
         Printed (DeletedOldBackup ''mongodb-backup-20260801.gz''),
         Sent (DeleteObject ''mongodb-backup-20260923.gz''),
         Printed (FailedToCleanup ''AccessDenied'')])
   \<and> deleteOldBackups (memClient []) utc (Some ''30'') None now0 store1
     = (None, [],
        [Printed (CleaningUp 30 (now0 - 30 * msPerDay)), Sent (ListObjectsV2 ''mongodb-backup-''),
         Printed (FoundOld 2),
         Sent (DeleteObject ''mongodb-backup-20260801.gz''),
         Printed (DeletedOldBackup ''mongodb-backup-20260801.gz''),
         Sent (DeleteObject ''mongodb-backup-20260923.gz''),
         Printed (DeletedOldBackup ''mongodb-backup-20260923.gz''),
         Printed (CleanupCompleted 2)])"
proof -
  have c: "setDate_back utc now0 30 = Some (now0 - 30 * msPerDay)"
    by (simp add: setDate_back_def TimeClip_def utc_def now0_def msPerDay_def)
  have l: "listObjects (memClient bad) (backupPrefix None) store1 = (Inr (Some store1), store1)" for bad
    by (simp add: memClient_def backupPrefix_def store1_def)
  have o: "store1 = filter (isOld (now0 - 30 * msPerDay)) store1"
    by (simp add: isOld_def store1_def now0_def msPerDay_def)
  have k: "keysOf store1 = [''mongodb-backup-20260801.gz''] @ ''mongodb-backup-20260923.gz'' # []"
    by (simp add: store1_def)
  have s1: "deletesSucceed (memClient [''mongodb-backup-20260923.gz'']) [''mongodb-backup-20260801.gz''] store1"
    by (simp add: memClient_def)
  have f: "deleteObject (memClient [''mongodb-backup-20260923.gz'']) ''mongodb-backup-20260923.gz''
             (afterDeletes (memClient [''mongodb-backup-20260923.gz'']) [''mongodb-backup-20260801.gz''] store1)
           = (Some ''AccessDenied'',
              [\<lparr>Key = Some ''mongodb-backup-20260923.gz'', LastModified = Some (now0 - 40 * msPerDay)\<rparr>])"
    by (simp add: memClient_def store1_def)
  have s2: "deletesSucceed (memClient []) (keysOf store1) store1"
    by (simp add: memClient_def store1_def)
  have a2: "afterDeletes (memClient []) (keysOf store1) store1 = []"
    by (simp add: memClient_def store1_def)
  have n: "store1 \<noteq> []" "length store1 = 2"
    by (simp_all add: store1_def)
  have p: "(0::int) < 30" by simp
  note th = retention_stops_at_first_failed_delete [OF refl parseInt_30 p c l o]
  have A: "deleteOldBackups (memClient [''mongodb-backup-20260923.gz'']) utc (Some ''30'') None now0 store1
     = (None,
        [\<lparr>Key = Some ''mongodb-backup-20260923.gz'', LastModified = Some (now0 - 40 * msPerDay)\<rparr>],
        [Printed (CleaningUp 30 (now0 - 30 * msPerDay)), Sent (ListObjectsV2 (backupPrefix None)),
         Printed (FoundOld (length store1))]
        @ deletionLines [''mongodb-backup-20260801.gz'']
        @ [Sent (DeleteObject ''mongodb-backup-20260923.gz''), Printed (FailedToCleanup ''AccessDenied'')])"
    using th [of "[''mongodb-backup-20260923.gz'']", THEN conjunct2, rule_format,
              OF conjI [OF k conjI [OF s1 f]]] .
  have B: "deleteOldBackups (memClient []) utc (Some ''30'') None now0 store1
     = (None, afterDeletes (memClient []) (keysOf store1) store1,
        [Printed (CleaningUp 30 (now0 - 30 * msPerDay)), Sent (ListObjectsV2 (backupPrefix None))]
        @ (if store1 = [] then [Printed NoOldBackups]
           else Printed (FoundOld (length store1)) # deletionLines (keysOf store1)
                @ [Printed (CleanupCompleted (length store1))]))"
    using th [of "[]", THEN conjunct1, rule_format, OF s2] .
  show ?thesis
    unfolding A B using a2 n k by (simp add: backupPrefix_def deletionLines_def)
qed

text \<open>
  C10. A retention of 200000000 days puts the cutoff outside the range of valid dates.
  Printing it throws before the \<^verbatim>\<open>try\<close> block of \<^verbatim>\<open>deleteOldBackups\<close> is entered, and
  the backup run, whose upload has succeeded, ends with that error.
\<close>

theorem backup_run_fails_when_cutoff_is_invalid:
  "createMongoDBBackup (memClient []) utc (Some ''200000000'') None ''20261102'' now0 None []
     = (Some RangeError,
        [\<lparr>Key = Some ''mongodb-backup-20261102.gz'', LastModified = None\<rparr>],
        [Printed StartingBackup, Printed DumpCompleted,
         Sent (PutObject ''mongodb-backup-20261102.gz''),
         Printed (UploadedTo ''mongodb-backup-20261102.gz''),
         Printed TempFileCleaned, Printed BackupFailed])"
  by (simp add: createMongoDBBackup_def Let_def s3KeyFor_def deleteOldBackups_def parseInt_def
      isWhiteSpace_def isDigit_def digitVal_def setDate_back_def TimeClip_def memClient_def
      now0_def msPerDay_def utc_def)

section \<open>The Restorer: what holds\<close>

lemma calls_append: "calls (a @ b) = calls a @ calls b"
  by (induction a rule: calls.induct) simp_all

lemma map_of_filter_keys:
  "P k \<Longrightarrow> map_of (filter (\<lambda>(k', v). P k') xs) k = map_of xs k"
  by (induction xs) auto

lemma indexOptions_name: "map_of (indexOptions index) ''name'' = map_of index ''name''"
proof -
  have "map_of (indexOptions index) ''name'' = map_of (indexSpec index) ''name''"
    unfolding indexOptions_def by (rule map_of_filter_keys) simp
  also have "\<dots> = map_of index ''name''"
    unfolding indexSpec_def by (rule map_of_filter_keys) simp
  finally show ?thesis .
qed

lemma restoreIndex_calls:
  "restoreIndex drv dbName collName index s = (s', ev) \<Longrightarrow>
     calls ev = (if isDefaultIdIndex index then [] else [createIndexCall dbName collName index])"
  by (auto simp: restoreIndex_def split: if_splits prod.splits option.splits)

lemma restoreIndexes_calls:
  "restoreIndexes drv dbName collName ixs s = (s', ev) \<Longrightarrow>
     calls ev = map (createIndexCall dbName collName) (filter (\<lambda>i. \<not> isDefaultIdIndex i) ixs)"
proof (induction ixs arbitrary: s s' ev)
  case Nil
  then show ?case by simp
next
  case (Cons index rest)
  obtain s1 ev1 where a: "restoreIndex drv dbName collName index s = (s1, ev1)"
    by (metis surj_pair)
  obtain s2 ev2 where b: "restoreIndexes drv dbName collName rest s1 = (s2, ev2)"
    by (metis surj_pair)
  have "ev = ev1 @ ev2" using Cons.prems a b by simp
  then show ?case
    using restoreIndex_calls [OF a] Cons.IH [OF b] by (simp add: calls_append)
qed

lemma dropStep_calls:
  "dropStep drv dropExisting dbName collName s = (s', ev) \<Longrightarrow>
     calls ev = (if dropExisting then [Drop dbName collName] else [])"
  by (auto simp: dropStep_def split: if_splits prod.splits option.splits)

lemma insertStep_calls:
  "insertStep drv dbName collName docs s = (r, s', ev) \<Longrightarrow>
     calls ev = (case docs of None \<Rightarrow> [] | Some ds \<Rightarrow>
                   if ds = [] then [] else [InsertMany dbName collName ds False])"
  by (auto simp: insertStep_def Let_def split: if_splits prod.splits option.splits)


lemma restoreCollection_calls:
  assumes "restoreCollection drv dropExisting dbName (collName, c) s = (r, s', ev)"
  shows "calls ev =
     (if dropExisting then [Drop dbName collName] else [])
     @ (case documents c of None \<Rightarrow> [] | Some ds \<Rightarrow>
          if ds = [] then [] else [InsertMany dbName collName ds False])
     @ (if r = None
        then map (createIndexCall dbName collName)
               (filter (\<lambda>i. \<not> isDefaultIdIndex i) (case indexes c of None \<Rightarrow> [] | Some ixs \<Rightarrow> ixs))
        else [])"
proof -
  obtain s1 ev1 where d: "dropStep drv dropExisting dbName collName s = (s1, ev1)"
    by (metis surj_pair)
  obtain r2 s2 ev2 where i: "insertStep drv dbName collName (documents c) s1 = (r2, s2, ev2)"
    by (metis surj_pair)
  obtain s3 ev3 where x: "restoreIndexes drv dbName collName
      (case indexes c of None \<Rightarrow> [] | Some ixs \<Rightarrow> ixs) s2 = (s3, ev3)"
    by (metis surj_pair)
  show ?thesis
  proof (cases r2)
    case None
    then have "r = None" "ev = Told (RestoringCollection collName) # ev1 @ ev2 @ ev3"
      using assms d i x by (simp_all add: restoreCollection_def)
    then show ?thesis
      using dropStep_calls [OF d] insertStep_calls [OF i] restoreIndexes_calls [OF x]
      by (simp add: calls_append)
  next
    case (Some e)
    then have "r = Some e" "ev = Told (RestoringCollection collName) # ev1 @ ev2"
      using assms d i by (simp_all add: restoreCollection_def)
    then show ?thesis
      using dropStep_calls [OF d] insertStep_calls [OF i]
      by (simp add: calls_append)
  qed
qed

lemma replay_append: "replay drv (a @ b) s = replay drv b (replay drv a s)"
  by (induction a arbitrary: s) simp_all

lemma dropStep_state:
  "dropStep drv dropExisting dbName collName s = (s', ev) \<Longrightarrow> s' = replay drv (calls ev) s"
  by (auto simp: dropStep_def split: if_splits prod.splits option.splits)

lemma insertStep_state:
  "insertStep drv dbName collName docs s = (r, s', ev) \<Longrightarrow> s' = replay drv (calls ev) s"
  by (auto simp: insertStep_def Let_def split: if_splits prod.splits option.splits)

lemma restoreIndex_state:
  "restoreIndex drv dbName collName index s = (s', ev) \<Longrightarrow> s' = replay drv (calls ev) s"
  by (auto simp: restoreIndex_def split: if_splits prod.splits option.splits)

lemma restoreIndexes_state:
  "restoreIndexes drv dbName collName ixs s = (s', ev) \<Longrightarrow> s' = replay drv (calls ev) s"
proof (induction ixs arbitrary: s s' ev)
  case Nil
  then show ?case by simp
next
  case (Cons index rest)
  obtain s1 ev1 where a: "restoreIndex drv dbName collName index s = (s1, ev1)"
    by (metis surj_pair)
  obtain s2 ev2 where b: "restoreIndexes drv dbName collName rest s1 = (s2, ev2)"
    by (metis surj_pair)
  have "ev = ev1 @ ev2" "s' = s2" using Cons.prems a b by simp_all
  then show ?case
    using restoreIndex_state [OF a] Cons.IH [OF b] by (simp add: calls_append replay_append)
qed

lemma restoreCollection_state:
  assumes "restoreCollection drv dropExisting dbName entry s = (r, s', ev)"
  shows "s' = replay drv (calls ev) s"
proof -
  obtain collName c where e: "entry = (collName, c)" by (cases entry)
  obtain s1 ev1 where d: "dropStep drv dropExisting dbName collName s = (s1, ev1)"
    by (metis surj_pair)
  obtain r2 s2 ev2 where i: "insertStep drv dbName collName (documents c) s1 = (r2, s2, ev2)"
    by (metis surj_pair)
  obtain s3 ev3 where x: "restoreIndexes drv dbName collName
      (case indexes c of None \<Rightarrow> [] | Some ixs \<Rightarrow> ixs) s2 = (s3, ev3)"
    by (metis surj_pair)
  note st = dropStep_state [OF d] insertStep_state [OF i] restoreIndexes_state [OF x]
  show ?thesis
  proof (cases r2)
    case None
    then have "s' = s3" "ev = Told (RestoringCollection collName) # ev1 @ ev2 @ ev3"
      using assms e d i x by (simp_all add: restoreCollection_def)
    then show ?thesis using st by (simp add: calls_append replay_append)
  next
    case (Some err)
    then have "s' = s2" "ev = Told (RestoringCollection collName) # ev1 @ ev2"
      using assms e d i by (simp_all add: restoreCollection_def)
    then show ?thesis using st by (simp add: calls_append replay_append)
  qed
qed

lemma restoreCollection_planned:
  assumes "restoreCollection drv dropExisting dbName (collName, c) s = (None, s', ev)"
  shows "calls ev = collectionCalls dropExisting dbName (collName, c)"
  using restoreCollection_calls [OF assms]
  by (simp add: collectionCalls_def isDefaultIdIndex_def)

text \<open>
  C7. Restoring a collection leaves the server in the state in which the driver has
  performed, one after the other, the calls of the restore. When the insert step has not
  ended the restore, these are the drop if asked for, the bulk insert if there are
  documents, and then one \<^verbatim>\<open>createIndex\<close> for every captured index that is not named
  \<^verbatim>\<open>_id_\<close>, in order, with the key and with the options left after \<^verbatim>\<open>v\<close>, \<^verbatim>\<open>ns\<close> and
  \<^verbatim>\<open>key\<close> are removed. No \<^verbatim>\<open>createIndex\<close> is ever called for an index named \<^verbatim>\<open>_id_\<close>.
\<close>

theorem default_id_index_never_recreated:
  assumes "restoreCollection drv dropExisting dbName (collName, c) s = (r, s', ev)"
  shows "s' = replay drv (calls ev) s
       \<and> (r = None \<longrightarrow> calls ev = collectionCalls dropExisting dbName (collName, c))
       \<and> (r = None \<longrightarrow>
            filter isCreateIndex (calls ev)
              = map (createIndexCall dbName collName)
                  (filter (\<lambda>i. map_of i ''name'' \<noteq> Some (VString ''_id_''))
                     (case indexes c of None \<Rightarrow> [] | Some ixs \<Rightarrow> ixs)))
       \<and> (\<forall>d cn k opts. CreateIndex d cn k opts \<in> set (calls ev)
             \<longrightarrow> map_of opts ''name'' \<noteq> Some (VString ''_id_''))"
proof -
  let ?ixs = "case indexes c of None \<Rightarrow> [] | Some ixs \<Rightarrow> ixs"
  let ?made = "map (createIndexCall dbName collName) (filter (\<lambda>i. \<not> isDefaultIdIndex i) ?ixs)"
  have cs: "calls ev =
     (if dropExisting then [Drop dbName collName] else [])
     @ (case documents c of None \<Rightarrow> [] | Some ds \<Rightarrow>
          if ds = [] then [] else [InsertMany dbName collName ds False])
     @ (if r = None then ?made else [])"
    using restoreCollection_calls [OF assms] .
  have all: "filter isCreateIndex ?made = ?made"
    by (simp add: filter_map o_def createIndexCall_def)
  have first: "r = None \<longrightarrow> filter isCreateIndex (calls ev) = ?made"
    using cs all by (auto split: option.splits)
  have planned: "r = None \<longrightarrow> calls ev = collectionCalls dropExisting dbName (collName, c)"
    using restoreCollection_planned [of drv dropExisting dbName collName c s s' ev] assms by simp
  have never: "map_of opts ''name'' \<noteq> Some (VString ''_id_'')"
    if "CreateIndex d cn k opts \<in> set (calls ev)" for d cn k opts
  proof -
    from that cs have "CreateIndex d cn k opts \<in> set ?made"
      by (auto split: option.splits if_splits)
    then obtain i where "\<not> isDefaultIdIndex i" "opts = indexOptions i"
      by (auto simp: createIndexCall_def)
    then show ?thesis
      by (simp add: indexOptions_name isDefaultIdIndex_def)
  qed
  show ?thesis
    using restoreCollection_state [OF assms] planned first never
    by (simp add: isDefaultIdIndex_def)
qed

text \<open>
  The collection \<open>users\<close> has the indexes \<^verbatim>\<open>_id_\<close> and \<^verbatim>\<open>email_1\<close>: the driver receives
  the bulk insert and the creation of \<^verbatim>\<open>email_1\<close> only, and an empty server then has
  that one index.
\<close>

theorem default_id_index_never_recreated_witness:
  "restoreCollection (recording (\<lambda>c. None)) False ''shop'' (''users'', users) []
     = (None,
        [InsertMany ''shop'' ''users'' [ada, bob] False,
         CreateIndex ''shop'' ''users'' (Some (VObject [(''email'', VNumber 1)]))
           [(''name'', VString ''email_1''), (''unique'', VBool True)]],
        [Told (RestoringCollection ''users''),
         Called (InsertMany ''shop'' ''users'' [ada, bob] False), Told (InsertedDocuments 2),
         Called (CreateIndex ''shop'' ''users'' (Some (VObject [(''email'', VNumber 1)]))
                   [(''name'', VString ''email_1''), (''unique'', VBool True)]),
         Told (CreatedIndex (Some (VString ''email_1'')))])
   \<and> created (fst (snd (restoreCollection (serverDriver (\<lambda>d. True)) False ''shop''
                          (''users'', users) emptyServer))) (''shop'', ''users'')
     = [(Some (VObject [(''email'', VNumber 1)]),
         [(''name'', VString ''email_1''), (''unique'', VBool True)])]"
proof -
  obtain r s' ev where run:
    "restoreCollection (recording (\<lambda>c. None)) False ''shop'' (''users'', users) [] = (r, s', ev)"
    by (metis surj_pair)
  have ev: "ev = [Told (RestoringCollection ''users''),
         Called (InsertMany ''shop'' ''users'' [ada, bob] False), Told (InsertedDocuments 2),
         Called (CreateIndex ''shop'' ''users'' (Some (VObject [(''email'', VNumber 1)]))
                   [(''name'', VString ''email_1''), (''unique'', VBool True)]),
         Told (CreatedIndex (Some (VString ''email_1'')))]" and r: "r = None"
    using run
    by (auto simp: restoreCollection_def dropStep_def insertStep_def restoreIndex_def
        isDefaultIdIndex_def createIndexCall_def indexSpec_def indexOptions_def recording_def
        users_def idIndex_def emailIndex_def)
  obtain r2 s2 ev2 where run2:
    "restoreCollection (serverDriver (\<lambda>d. True)) False ''shop'' (''users'', users) emptyServer
       = (r2, s2, ev2)"
    by (metis surj_pair)
  have r2: "r2 = None"
    using run2
    by (simp add: restoreCollection_def dropStep_def insertStep_def serverDriver_def emptyServer_def
        users_def bulkError_def ada_def bob_def collides_def docId_def split: prod.splits)
  have cc: "collectionCalls False ''shop'' (''users'', users)
      = [InsertMany ''shop'' ''users'' [ada, bob] False,
         CreateIndex ''shop'' ''users'' (Some (VObject [(''email'', VNumber 1)]))
           [(''name'', VString ''email_1''), (''unique'', VBool True)]]"
    by (simp add: collectionCalls_def createIndexCall_def indexSpec_def indexOptions_def
        users_def idIndex_def emailIndex_def)
  have s': "s' = [InsertMany ''shop'' ''users'' [ada, bob] False,
         CreateIndex ''shop'' ''users'' (Some (VObject [(''email'', VNumber 1)]))
           [(''name'', VString ''email_1''), (''unique'', VBool True)]]"
    using default_id_index_never_recreated [OF run] r cc by (simp add: recording_def)
  have "created s2 (''shop'', ''users'')
     = [(Some (VObject [(''email'', VNumber 1)]),
         [(''name'', VString ''email_1''), (''unique'', VBool True)])]"
    using default_id_index_never_recreated [OF run2] r2 cc
    by (simp add: serverDriver_def emptyServer_def)
  then show ?thesis using run run2 r s' ev by simp
qed

text \<open>
  C9. For a collection whose document list is absent or empty no \<^verbatim>\<open>insertMany\<close> call is
  made, and restoring the collection does not fail, whatever the driver answers.
\<close>

theorem empty_collection_is_not_inserted:
  assumes "documents c = None \<or> documents c = Some []"
  shows "filter isInsertMany
           (calls (snd (snd (restoreCollection drv dropExisting dbName (collName, c) s)))) = []
       \<and> fst (restoreCollection drv dropExisting dbName (collName, c) s) = None"
proof -
  obtain r s' ev where run: "restoreCollection drv dropExisting dbName (collName, c) s = (r, s', ev)"
    by (metis surj_pair)
  obtain s1 ev1 where d: "dropStep drv dropExisting dbName collName s = (s1, ev1)"
    by (metis surj_pair)
  have i: "insertStep drv dbName collName (documents c) s1 = (None, s1, [])"
    using assms by (auto simp: insertStep_def)
  have r: "r = None"
    using run d i by (simp add: restoreCollection_def split: prod.splits)
  have "filter isInsertMany (calls ev) = []"
    using restoreCollection_calls [OF run] assms r
    by (auto simp: filter_map o_def createIndexCall_def)
  then show ?thesis using run r by simp
qed

text \<open>
  An empty collection restored on a server that rejects every bulk insert.
\<close>

theorem empty_collection_is_not_inserted_witness:
  "calls (snd (snd (restoreCollection (scripted (\<lambda>c. if isInsertMany c then Some (serverError 121 ''DocumentValidationFailure'') else None))
        True ''audit'' (''events'', emptyCollection) ()))) = [Drop ''audit'' ''events'']
   \<and> fst (restoreCollection (scripted (\<lambda>c. if isInsertMany c then Some (serverError 121 ''DocumentValidationFailure'') else None))
        True ''audit'' (''events'', emptyCollection) ()) = None"
proof -
  have e: "documents emptyCollection = None \<or> documents emptyCollection = Some []"
    by (simp add: emptyCollection_def idIndex_def)
  have c: "calls (snd (snd (restoreCollection (scripted (\<lambda>c. if isInsertMany c then Some (serverError 121 ''DocumentValidationFailure'') else None))
        True ''audit'' (''events'', emptyCollection) ()))) = [Drop ''audit'' ''events'']"
    by (simp add: restoreCollection_def dropStep_def insertStep_def restoreIndex_def
        isDefaultIdIndex_def scripted_def emptyCollection_def idIndex_def)
  show ?thesis
    using empty_collection_is_not_inserted [OF e, of _ True "''audit''" "''events''" "()"] c
    by simp
qed

lemma insertStep_ok:
  "fst (drv (InsertMany dbName collName ds False) s) = None \<Longrightarrow> ds \<noteq> [] \<Longrightarrow>
     fst (insertStep drv dbName collName (Some ds) s) = None"
  by (auto simp: insertStep_def split: prod.splits option.splits)




























section \<open>The archive chosen and the archive read back\<close>

lemma listBackups_sorted:
  assumes "listBackups cl kp t = Inr (b # bs)"
  shows "\<exists>contents. fst (listObjects cl (backupPrefix kp) t) = Inr (Some contents)
           \<and> set (b # bs) = set (List.map_filter entryOf contents)
           \<and> length (b # bs) = length (List.map_filter entryOf contents)
           \<and> (\<forall>x \<in> set (List.map_filter entryOf contents). lastModified x \<le> lastModified b)
           \<and> sorted (map (\<lambda>x. - lastModified x) (b # bs))
           \<and> b = hd (filter (\<lambda>x. lastModified x = lastModified b) (List.map_filter entryOf contents))"
proof -
  obtain contents where c: "fst (listObjects cl (backupPrefix kp) t) = Inr (Some contents)"
      and l: "b # bs = sort_key (\<lambda>x. - lastModified x) (List.map_filter entryOf contents)"
    using assms by (auto simp: listBackups_def split: sum.splits option.splits if_splits)
  let ?es = "List.map_filter entryOf contents"
  let ?f = "\<lambda>x. - lastModified x"
  have s: "sorted (map ?f (b # bs))" unfolding l by (rule sorted_sort_key)
  have m: "set (b # bs) = set ?es" unfolding l by simp
  have n: "length (b # bs) = length ?es" unfolding l by simp
  have mx: "\<forall>x \<in> set ?es. lastModified x \<le> lastModified b"
  proof
    fix x assume "x \<in> set ?es"
    then have "x = b \<or> x \<in> set bs" using m by auto
    then show "lastModified x \<le> lastModified b" using s by auto
  qed
  have "filter (\<lambda>x. ?f x = ?f b) (b # bs) = filter (\<lambda>x. ?f x = ?f b) ?es"
    unfolding l by (rule sort_key_stable)
  then have "filter (\<lambda>x. lastModified x = lastModified b) ?es
               = b # filter (\<lambda>x. lastModified x = lastModified b) bs"
    by simp
  then have "hd (filter (\<lambda>x. lastModified x = lastModified b) ?es) = b"
    by simp
  then show ?thesis using c s m n mx by auto
qed

text \<open>
  C4. With no backup file given, and a listing that succeeds: when \<^verbatim>\<open>listBackups\<close> is
  empty, \<^verbatim>\<open>restore\<close> ends with \<open>NoBackupsFound\<close>, the database is as before and no
  driver call is made; otherwise the archive downloaded and restored is the first entry of
  \<^verbatim>\<open>listBackups\<close>, which is sorted by last-modified time descending, holds the entries of
  the listing that have a key and a time, and has as first entry the first listed among
  those modified last.
\<close>

theorem restore_takes_latest_backup:
  assumes "backupFileName = None \<or> backupFileName = Some []"
    and "fst (listObjects cl (backupPrefix S3_KEY_PATH) t) = Inr listing"
  shows "(listBackups cl S3_KEY_PATH t = Inr [] \<longrightarrow>
            restore cl drv fetch S3_KEY_PATH pathname backupFileName dropExisting t s
              = (Some NoBackupsFound, s, [Told NoBackupsInS3]))
       \<and> (\<forall>b bs. listBackups cl S3_KEY_PATH t = Inr (b # bs) \<longrightarrow>
            selectBackup cl S3_KEY_PATH backupFileName t = Inr (key b)
          \<and> (\<forall>x \<in> set (b # bs). lastModified x \<le> lastModified b)
          \<and> sorted (map (\<lambda>x. - lastModified x) (b # bs))
          \<and> (\<exists>contents. listing = Some contents
                \<and> set (b # bs) = set (List.map_filter entryOf contents)
                \<and> b = hd (filter (\<lambda>x. lastModified x = lastModified b)
                             (List.map_filter entryOf contents)))
          \<and> restore cl drv fetch S3_KEY_PATH pathname backupFileName dropExisting t s
              = (case fetch (key b) of
                   Inl msg \<Rightarrow> (Some (ArchiveFailed msg), s, [Downloaded (key b)])
                 | Inr backup \<Rightarrow>
                     (case restoreToMongoDB drv pathname backup dropExisting s of
                        (r, s', ev) \<Rightarrow> (r, s', Downloaded (key b) # ev))))"
proof (intro conjI allI impI)
  assume "listBackups cl S3_KEY_PATH t = Inr []"
  then show "restore cl drv fetch S3_KEY_PATH pathname backupFileName dropExisting t s
              = (Some NoBackupsFound, s, [Told NoBackupsInS3])"
    using assms(1) by (auto simp: restore_def selectBackup_def latestBackup_def)
next
  fix b bs assume l: "listBackups cl S3_KEY_PATH t = Inr (b # bs)"
  obtain contents where c: "fst (listObjects cl (backupPrefix S3_KEY_PATH) t) = Inr (Some contents)"
      "set (b # bs) = set (List.map_filter entryOf contents)"
      "\<forall>x \<in> set (List.map_filter entryOf contents). lastModified x \<le> lastModified b"
      "sorted (map (\<lambda>x. - lastModified x) (b # bs))"
      "b = hd (filter (\<lambda>x. lastModified x = lastModified b) (List.map_filter entryOf contents))"
    using listBackups_sorted [OF l] by blast
  show sel: "selectBackup cl S3_KEY_PATH backupFileName t = Inr (key b)"
    using assms(1) l by (auto simp: selectBackup_def latestBackup_def)
  show "\<forall>x \<in> set (b # bs). lastModified x \<le> lastModified b"
    using c(2,3) by blast
  show "sorted (map (\<lambda>x. - lastModified x) (b # bs))"
    using c(4) .
  show "\<exists>contents. listing = Some contents
                \<and> set (b # bs) = set (List.map_filter entryOf contents)
                \<and> b = hd (filter (\<lambda>x. lastModified x = lastModified b)
                             (List.map_filter entryOf contents))"
    using c(1,2,5) assms(2) by auto
  show "restore cl drv fetch S3_KEY_PATH pathname backupFileName dropExisting t s
              = (case fetch (key b) of
                   Inl msg \<Rightarrow> (Some (ArchiveFailed msg), s, [Downloaded (key b)])
                 | Inr backup \<Rightarrow>
                     (case restoreToMongoDB drv pathname backup dropExisting s of
                        (r, s', ev) \<Rightarrow> (r, s', Downloaded (key b) # ev)))"
    using sel by (simp add: restore_def)
qed


text \<open>
  An empty store, and the store of the retention example.
\<close>

theorem restore_takes_latest_backup_witness:
  "restore (memClient []) (scripted (\<lambda>c. None)) (\<lambda>k. Inl ''NoSuchKey'') None (Some ''/shop'') None False [] ()
     = (Some NoBackupsFound, (), [Told NoBackupsInS3])
   \<and> selectBackup (memClient []) None None store0 = Inr ''mongodb-backup-20261101.gz''
   \<and> restore (memClient []) (scripted (\<lambda>c. None)) (\<lambda>k. Inl ''NoSuchKey'') None (Some ''/shop'') None False store0 ()
     = (Some (ArchiveFailed ''NoSuchKey''), (), [Downloaded ''mongodb-backup-20261101.gz''])"
proof -
  have e: "fst (listObjects (memClient []) (backupPrefix None) []) = Inr (Some [])"
    by (simp add: memClient_def)
  have le: "listBackups (memClient []) None [] = Inr []"
    by (simp add: listBackups_def memClient_def)
  have f: "fst (listObjects (memClient []) (backupPrefix None) store0) = Inr (Some store0)"
    by (simp add: memClient_def backupPrefix_def store0_def)
  have l: "listBackups (memClient []) None store0
     = Inr (\<lparr>key = ''mongodb-backup-20261101.gz'', lastModified = now0 - 1 * msPerDay\<rparr>
            # [\<lparr>key = ''mongodb-backup-20261023.gz'', lastModified = now0 - 10 * msPerDay\<rparr>,
               \<lparr>key = ''mongodb-backup-20260923.gz'', lastModified = now0 - 40 * msPerDay\<rparr>])"
    by (simp add: listBackups_def memClient_def backupPrefix_def List.map_filter_def entryOf_def
        store0_def now0_def msPerDay_def)
  show ?thesis
    using restore_takes_latest_backup
            [of None "memClient []" None "[]" "Some []" "scripted (\<lambda>c. None)"
                "\<lambda>k. Inl ''NoSuchKey''" "Some ''/shop''" False "()"]
          restore_takes_latest_backup
            [of None "memClient []" None store0 "Some store0" "scripted (\<lambda>c. None)"
                "\<lambda>k. Inl ''NoSuchKey''" "Some ''/shop''" False "()"]
          e le f l
    by simp
qed

text \<open>
  What does survive the archive: a value made of strings, numbers, booleans, \<^verbatim>\<open>null\<close>,
  arrays and objects only is read back as it was written.
\<close>

lemma those_map_Some:
  "(\<And>x. x \<in> set xs \<Longrightarrow> f x = Some (g x)) \<Longrightarrow> those (map f xs) = Some (map g xs)"
  by (induction xs) auto

lemma round_trip_of_json_native_values:
  "jsonNative v \<Longrightarrow> EJSON_parse (JSON_stringify v) = Some v"
proof (induction v)
  case (VArray vs)
  have "those (map EJSON_parse (map JSON_stringify vs)) = Some (map (\<lambda>v. v) vs)"
    unfolding map_map
  proof (rule those_map_Some)
    fix x assume "x \<in> set vs"
    then show "(EJSON_parse \<circ> JSON_stringify) x = Some x"
      using VArray by (auto simp: list_all_iff)
  qed
  then show ?case by simp
next
  case (VObject kvs)
  have k: "list_all (\<lambda>(k, j). plainKey k) (map (\<lambda>(k, v). (k, JSON_stringify v)) kvs)"
    using VObject.prems by (auto simp: list_all_iff)
  have "those (map (\<lambda>(k, j). map_option (Pair k) (EJSON_parse j))
                 (map (\<lambda>(k, v). (k, JSON_stringify v)) kvs)) = Some (map (\<lambda>kv. kv) kvs)"
    unfolding map_map
  proof (rule those_map_Some)
    fix x assume x: "x \<in> set kvs"
    obtain a b where ab: "x = (a, b)" by (cases x)
    have "jsonNative b" using VObject.prems x ab by (auto simp: list_all_iff)
    moreover have "b \<in> Basic_BNFs.snds x" using ab by simp
    ultimately have "EJSON_parse (JSON_stringify b) = Some b"
      using VObject.IH x by blast
    then show "((\<lambda>(k, j). map_option (Pair k) (EJSON_parse j)) \<circ> (\<lambda>(k, v). (k, JSON_stringify v))) x
                 = Some x"
      using ab by simp
  qed
  then show ?case using k by simp
qed simp_all

text \<open>
  C1. A \<^verbatim>\<open>Date\<close> and an \<^verbatim>\<open>ObjectId\<close> are written as plain strings and read back as
  strings: the snapshot \<open>backup0\<close> does not decode to itself.
\<close>

theorem archive_does_not_round_trip:
  "EJSON_parse (JSON_stringify (VObject [(''createdAt'', VDate ''2024-01-15T10:30:00.000Z'')]))
     = Some (VObject [(''createdAt'', VString ''2024-01-15T10:30:00.000Z'')])
   \<and> EJSON_parse (JSON_stringify (VObject [(''_id'', VObjectId ''65a1b2c3d4e5f60718293a4b'')]))
     = Some (VObject [(''_id'', VString ''65a1b2c3d4e5f60718293a4b'')])
   \<and> EJSON_parse (encode backup0) \<noteq> Some (backup_object backup0)"
  by (simp add: plainKey_def encode_def backup_object_def database_object_def
      collection_object_def backup0_def users_def ada_def bob_def emailIndex_def
      emptyCollection_def idIndex_def)

end
